theory Spec2Isabelle
  imports Complex_Main "HOL-Library.Extended_Nat"
begin

section \<open>The AutoML front end of mosaic\_ml (src/mosaic\_ml/automl.py)\<close>

text \<open>
  The class \<^verbatim>\<open>AutoML\<close> is glue code: it creates an execution directory and a log
  file, picks a scoring function by name, loads a configuration space, builds an
  evaluation environment and a searcher, adapts the environment to the data set and
  starts the search. Python objects are records, every raise is the \<open>Inl\<close> branch of a
  sum, and the mutable surroundings (file system, the global numpy random generator,
  the handlers of the logger \<^verbatim>\<open>automl\<close>, and the order in which the collaborators are
  called) are an explicit \<open>world\<close> that every method takes and returns.
\<close>

subsection \<open>Exceptions, values and the world\<close>

text \<open>A raised Python exception: the name of its class and its message.\<close>

datatype exn = Exn (exn_class: string) (exn_msg: string)

text \<open>The three functions of \<^verbatim>\<open>sklearn.metrics\<close> imported at lines 15--16.\<close>

datatype metric = balanced_accuracy_score | accuracy_score | roc_auc_score

text \<open>
  The state of the global generator \<^verbatim>\<open>np.random\<close>: either as the operating system
  initialised it, or as reached from \<^verbatim>\<open>np.random.seed(s)\<close> after a number of draws.
\<close>

datatype rng = Entropy nat | Seeded int nat

datatype handler = FileHandler string | StreamHandler

text \<open>
  The calls that leave \<^verbatim>\<open>automl.py\<close>, in program order: \<^verbatim>\<open>logger_automl.info\<close>,
  \<^verbatim>\<open>pcs.read\<close> on a path, the constructors \<^verbatim>\<open>SklearnEnv\<close> (memory limit, time limit, seed)
  and \<^verbatim>\<open>SearchML\<close> (time budget, seed, directory), the two attribute writes of
  \<^verbatim>\<open>adapt_search_space\<close> on the environment, \<^verbatim>\<open>searcher.run\<close> (simulation cap, initial
  configurations), and the evaluations the searcher reports from inside its run.
\<close>

datatype 'c call =
    LoggerInfo string
  | PcsRead string
  | NewSklearnEnv int int int
  | NewSearchML int int string
  | EnvSetParam "string list"
  | EnvSetValue nat nat bool
  | SearcherRun nat "'c list"
  | Evaluate 'c

text \<open>
  The file system is the list of existing directories and the list of existing files,
  with paths compared as written; permissions, links and normalisation of paths are
  outside the model. \<open>os_random\<close> is the state of the random source from which
  \<^verbatim>\<open>tempfile\<close> draws names; it is not the numpy generator and no seed of the program
  reaches it.
\<close>

record 'c world =
  dirs :: "string list"
  files :: "string list"
  np_random :: rng
  automl_handlers :: "handler list"
  calls :: "'c call list"
  os_random :: nat

definition record_call :: "'c call \<Rightarrow> 'c world \<Rightarrow> 'c world" where
  "record_call k w = w\<lparr>calls := calls w @ [k]\<rparr>"

definition logger_info :: "string \<Rightarrow> 'c world \<Rightarrow> 'c world" where
  "logger_info msg w = record_call (LoggerInfo msg) w"

subsection \<open>Library functions with a fixed contract\<close>

text \<open>
  \<^verbatim>\<open>np.random.seed(seed)\<close> accepts the seeds from 0 to \<open>2^32 - 1\<close> and raises
  ValueError on any other integer.
\<close>

definition np_random_seed :: "int \<Rightarrow> 'c world \<Rightarrow> exn + 'c world" where
  "np_random_seed s w =
     (if 0 \<le> s \<and> s < 2 ^ 32 then Inr (w\<lparr>np_random := Seeded s 0\<rparr>)
      else Inl (Exn ''ValueError'' ''Seed must be between 0 and 2**32 - 1''))"

text \<open>\<^verbatim>\<open>str\<close> of a natural number, of a tuple and of a list of them.\<close>

fun str_nat :: "nat \<Rightarrow> string" where
  "str_nat n =
     (if n < 10 then [''0123456789'' ! n]
      else str_nat (n div 10) @ [''0123456789'' ! (n mod 10)])"

fun comma_sep :: "string list \<Rightarrow> string" where
  "comma_sep [] = []"
| "comma_sep [s] = s"
| "comma_sep (s # t # ts) = s @ '', '' @ comma_sep (t # ts)"

definition str_tuple :: "nat list \<Rightarrow> string" where
  "str_tuple ns =
     (case ns of
        [n] \<Rightarrow> ''('' @ str_nat n @ '',)''
      | _ \<Rightarrow> ''('' @ comma_sep (map str_nat ns) @ '')'')"

definition str_list :: "nat list \<Rightarrow> string" where
  "str_list ns = ''['' @ comma_sep (map str_nat ns) @ '']''"

text \<open>
  \<^verbatim>\<open>tempfile.mkdtemp()\<close> draws a random name, creates a directory that did not exist
  and returns its path. The name of the model carries the draw and is longer than
  every existing path; the random source moves on.
\<close>

definition longest :: "string list \<Rightarrow> nat" where
  "longest ps = foldr (\<lambda>p n. max (length p) n) ps 0"

definition tmp_name :: "'c world \<Rightarrow> string" where
  "tmp_name w =
     ''/tmp/tmp'' @ str_nat (os_random w)
       @ replicate (Suc (longest (dirs w @ files w))) (CHR ''x'')"

definition mkdtemp :: "'c world \<Rightarrow> string \<times> 'c world" where
  "mkdtemp w =
     (tmp_name w, w\<lparr>dirs := tmp_name w # dirs w, os_random := Suc (os_random w)\<rparr>)"

text \<open>
  \<^verbatim>\<open>os.makedirs(name)\<close> with \<^verbatim>\<open>exist_ok\<close> left False: FileExistsError when the path
  exists, FileNotFoundError on the empty path, otherwise the directory is created.
\<close>

definition os_makedirs :: "string \<Rightarrow> 'c world \<Rightarrow> exn + 'c world" where
  "os_makedirs p w =
     (if p = [] then
        Inl (Exn ''FileNotFoundError'' ''[Errno 2] No such file or directory'')
      else if p \<in> set (dirs w) \<or> p \<in> set (files w) then
        Inl (Exn ''FileExistsError'' (''[Errno 17] File exists: '' @ p))
      else Inr (w\<lparr>dirs := p # dirs w\<rparr>))"

text \<open>\<^verbatim>\<open>os.path.join(a, b)\<close> on POSIX paths.\<close>

definition os_path_join :: "string \<Rightarrow> string \<Rightarrow> string" where
  "os_path_join a b =
     (if b \<noteq> [] \<and> hd b = CHR ''/'' then b
      else if a = [] \<or> last a = CHR ''/'' then a @ b
      else a @ ''/'' @ b)"

text \<open>
  \<^verbatim>\<open>logging.FileHandler(path, mode='w')\<close> opens the file at once, which creates it;
  \<^verbatim>\<open>addHandler\<close> attaches the handler to the process-wide logger \<^verbatim>\<open>automl\<close>.
\<close>

definition add_file_handler :: "string \<Rightarrow> 'c world \<Rightarrow> 'c world" where
  "add_file_handler p w =
     w\<lparr>files := (if p \<in> set (files w) then files w else p # files w),
       automl_handlers := automl_handlers w @ [FileHandler p]\<rparr>"

definition add_stream_handler :: "'c world \<Rightarrow> 'c world" where
  "add_stream_handler w = w\<lparr>automl_handlers := automl_handlers w @ [StreamHandler]\<rparr>"

subsection \<open>The objects\<close>

text \<open>
  \<^verbatim>\<open>partial(evaluate, X=..., y=..., score_func=..., categorical_features=..., seed=...,
  test_data=...)\<close> of lines 163--165: the keyword arguments it fixes. An absent test
  split is the empty dictionary of the source.
\<close>

record 'd eval_partial =
  ev_X :: 'd
  ev_y :: 'd
  ev_score_func :: metric
  ev_categorical_features :: "string list"
  ev_seed :: int
  ev_test_data :: "('d \<times> 'd) option"

text \<open>The dictionary written at lines 109--113.\<close>

record dependant_value =
  no_encoding :: nat
  one_hot_encoding :: nat
  is_positive :: bool

text \<open>
  Modelled from the spec: the classes \<^verbatim>\<open>SklearnEnv\<close> (mosaic\_ml/sklearn\_env.py) and
  \<^verbatim>\<open>SearchML\<close> (mosaic\_ml/mosaic\_wrapper/mosaic.py) are not part of the sources at hand.
  An environment is the record of the keyword arguments of lines 168--172 together with
  the three attributes that automl.py reads or writes on it: the two problem-dependent
  attributes and the best-result slot \<^verbatim>\<open>bestconfig\<close>, a dictionary (the spec's BestResult:
  the best complete configuration and its score). A searcher is the record of the
  keyword arguments of lines 174--179, and \<^verbatim>\<open>searcher.mcts.env\<close> is the environment it was
  given.
\<close>

record ('d, 'cs, 'v) sklearn_env =
  eval_func :: "'d eval_partial"
  config_space :: 'cs
  mem_in_mb :: int
  cpu_time_in_s :: int
  env_seed :: int
  problem_dependant_param :: "string list option"
  problem_dependant_value :: "dependant_value option"
  bestconfig :: "string \<rightharpoonup> 'v"

text \<open>\<^verbatim>\<open>{"policy_name": "puct", "c": 1.3}\<close>, the literal 1.3 kept as the decimal it is written as.\<close>

record policy =
  policy_name :: string
  puct_c :: rat

record ('d, 'cs, 'v) search_ml =
  mcts_env :: "('d, 'cs, 'v) sklearn_env"
  sm_time_budget :: int
  sm_seed :: int
  sm_policy_arg :: policy
  sm_exec_dir :: string
  sm_verbose :: int

text \<open>
  The attributes of an \<^verbatim>\<open>AutoML\<close> object. \<^verbatim>\<open>data_manager\<close> and \<^verbatim>\<open>logger_automl\<close> are left
  out: the first is stored and never read, the second is the process-wide logger, which
  lives in the world.
\<close>

record ('d, 'cs, 'v) automl =
  time_budget :: int
  time_limit_for_evaluation :: int
  memory_limit :: int
  policy_arg :: policy
  searcher :: "('d, 'cs, 'v) search_ml option"
  seed :: int
  verbose :: int
  exec_dir :: string
  mosaic_dir :: string
  scoring_func :: metric
  problem_dependant_parameter :: "string list option"

subsection \<open>Construction (lines 32--82)\<close>

text \<open>\<^verbatim>\<open>AutoML._set_scoring_func\<close>, returning the function it would store.\<close>

definition set_scoring_func :: "string \<Rightarrow> exn + metric" where
  "set_scoring_func name =
     (if name = ''balanced_accuracy'' then Inr balanced_accuracy_score
      else if name = ''accuracy'' then Inr accuracy_score
      else if name = ''roc_auc'' then Inr roc_auc_score
      else Inl (Exn ''Exception'' (''Score func '' @ name @ '' unknown'')))"

text \<open>Lines 53--58: the execution directory.\<close>

definition make_exec_dir :: "string option \<Rightarrow> 'c world \<Rightarrow> exn + string \<times> 'c world" where
  "make_exec_dir dir_arg w =
     (case dir_arg of
        None \<Rightarrow> Inr (mkdtemp w)
      | Some d \<Rightarrow> (case os_makedirs d w of Inl e \<Rightarrow> Inl e | Inr w' \<Rightarrow> Inr (d, w')))"

text \<open>Lines 60--69: the handlers of the logger.\<close>

definition add_handlers :: "string \<Rightarrow> int \<Rightarrow> 'c world \<Rightarrow> 'c world" where
  "add_handlers d vb w =
     (let w1 = add_file_handler (os_path_join d ''automl.log'') w
      in if vb \<noteq> 0 then add_stream_handler w1 else w1)"

text \<open>
  \<^verbatim>\<open>AutoML.__init__\<close>. The result is the exception and the world at the raise, or the
  new object and the world. The searcher is None in every object it returns.
\<close>

definition init ::
  "int \<Rightarrow> int \<Rightarrow> int \<Rightarrow> string \<Rightarrow> int \<Rightarrow> string option \<Rightarrow> int \<Rightarrow> 'c world
     \<Rightarrow> (exn + ('d, 'cs, 'v) automl) \<times> 'c world" where
  "init budget limit mem score_name sd dir_arg vb w =
     (case np_random_seed sd w of
        Inl e \<Rightarrow> (Inl e, w)
      | Inr w1 \<Rightarrow>
         (case make_exec_dir dir_arg w1 of
            Inl e \<Rightarrow> (Inl e, w1)
          | Inr (d, w2) \<Rightarrow>
             (let w3 = add_handlers d vb w2
              in case set_scoring_func score_name of
                   Inl e \<Rightarrow> (Inl e, w3)
                 | Inr f \<Rightarrow>
                    (Inr \<lparr>time_budget = budget, time_limit_for_evaluation = limit,
                          memory_limit = mem,
                          policy_arg = \<lparr>policy_name = ''puct'', puct_c = 13 / 10\<rparr>,
                          searcher = None, seed = sd, verbose = vb, exec_dir = d,
                          mosaic_dir = os_path_join d ''mosaic'', scoring_func = f,
                          problem_dependant_parameter = None\<rparr>, w3))))"

subsection \<open>The collaborators\<close>

text \<open>
  What automl.py calls and does not define is a parameter of the model, so that every
  theorem holds whatever these functions do: the directory of the module
  (\<^verbatim>\<open>os.path.dirname(os.path.abspath(__file__))\<close>), \<^verbatim>\<open>np.array\<close> (which also accepts
  None), \<^verbatim>\<open>issparse\<close>, \<^verbatim>\<open>np.shape\<close>, opening and parsing a configuration-space file,
  \<^verbatim>\<open>OneHotEncoder().fit_transform\<close>, \<^verbatim>\<open>MultinomialNB().fit\<close> (the exception it raises, if
  any), the best-result slot of a new environment, \<^verbatim>\<open>searcher.run\<close> and
  \<^verbatim>\<open>searcher.get_history_run\<close>. A run of the searcher starts from a searcher, the state
  of the numpy generator, the simulation cap and the initial configurations; it gives
  the exception it raised (if any), the searcher and the generator as it left them, and
  the configurations it evaluated, in order.
\<close>

record ('d, 'cs, 'c, 'v) lib =
  module_dir :: string
  np_array :: "'d option \<Rightarrow> 'd"
  issparse :: "'d \<Rightarrow> bool"
  np_shape :: "'d \<Rightarrow> nat list"
  pcs_read :: "string \<Rightarrow> exn + 'cs"
  onehot_fit_transform :: "'d \<Rightarrow> exn + 'd"
  multinomial_nb_fit :: "'d \<Rightarrow> 'd \<Rightarrow> exn option"
  new_bestconfig :: "string \<rightharpoonup> 'v"
  searcher_run ::
    "('d, 'cs, 'v) search_ml \<Rightarrow> rng \<Rightarrow> nat \<Rightarrow> 'c list
       \<Rightarrow> exn option \<times> ('d, 'cs, 'v) search_ml \<times> rng \<times> 'c list"
  get_history_run :: "('d, 'cs, 'v) search_ml \<Rightarrow> ('c \<times> 'v \<times> nat) list"

subsection \<open>The configuration space (lines 130--136)\<close>

text \<open>
  \<^verbatim>\<open>AutoML.get_config_space\<close>. The sparse branch looks \<^verbatim>\<open>path4\<close> up in the module
  \<^verbatim>\<open>os\<close> while it evaluates the argument of \<^verbatim>\<open>open\<close>, so it raises before any file is read.
\<close>

definition get_config_space ::
  "('d, 'cs, 'c, 'v) lib \<Rightarrow> 'd \<Rightarrow> 'c world \<Rightarrow> (exn + 'cs) \<times> 'c world" where
  "get_config_space L X w =
     (if issparse L X then
        (let w1 = logger_info ''Data is sparse'' w
         in (Inl (Exn ''AttributeError'' ''module os has no attribute path4''), w1))
      else
        (let w1 = logger_info ''Data is dense'' w;
             path = module_dir L @ ''/model_config/1_0.pcs''
         in (pcs_read L path, record_call (PcsRead path) w1)))"

subsection \<open>Adapting the search space (lines 84--114)\<close>

definition problem_dependant_names :: "string list" where
  "problem_dependant_names =
     [''preprocessor:feature_agglomeration:n_clusters'',
      ''preprocessor:kernel_pca:n_components'',
      ''preprocessor:kitchen_sinks:n_components'',
      ''preprocessor:nystroem_sampler:n_components'']"

text \<open>\<^verbatim>\<open>np.shape(a)[1]\<close>: IndexError when the shape has fewer than two entries.\<close>

definition shape_1 :: "nat list \<Rightarrow> exn + nat" where
  "shape_1 sh =
     (if 1 < length sh then Inr (sh ! 1)
      else Inl (Exn ''IndexError'' ''tuple index out of range''))"

text \<open>
  Lines 93--98. The \<^verbatim>\<open>try\<close> block counts the columns of \<^verbatim>\<open>X\<close> and of its one-hot
  encoding; the bare \<^verbatim>\<open>except\<close> catches whatever it raises and counts the columns of
  \<^verbatim>\<open>X\<close> twice, which can raise itself.
\<close>

definition count_features :: "('d, 'cs, 'c, 'v) lib \<Rightarrow> 'd \<Rightarrow> exn + nat \<times> nat" where
  "count_features L X =
     (let tried =
            (case shape_1 (np_shape L X) of
               Inl e \<Rightarrow> Inl e
             | Inr n \<Rightarrow>
                (case onehot_fit_transform L X of
                   Inl e \<Rightarrow> Inl e
                 | Inr X' \<Rightarrow>
                    (case shape_1 (np_shape L X') of
                       Inl e \<Rightarrow> Inl e
                     | Inr m \<Rightarrow> Inr (n, m))))
      in case tried of
           Inr nm \<Rightarrow> Inr nm
         | Inl _ \<Rightarrow>
            (case shape_1 (np_shape L X) of
               Inl e \<Rightarrow> Inl e
             | Inr n \<Rightarrow> Inr (n, n)))"

text \<open>
  \<^verbatim>\<open>AutoML.adapt_search_space\<close>: the outcome, the object and the world after the call.
  \<^verbatim>\<open>is_positive\<close> is whether \<^verbatim>\<open>MultinomialNB().fit(X, y)\<close> raised nothing.
\<close>

definition adapt_search_space ::
  "('d, 'cs, 'c, 'v) lib \<Rightarrow> ('d, 'cs, 'v) automl \<Rightarrow> 'd \<Rightarrow> 'd \<Rightarrow> 'c world
     \<Rightarrow> (exn + unit) \<times> ('d, 'cs, 'v) automl \<times> 'c world" where
  "adapt_search_space L self X y w =
     (let self1 = self\<lparr>problem_dependant_parameter := Some problem_dependant_names\<rparr>
      in case count_features L X of
           Inl e \<Rightarrow> (Inl e, self1, w)
         | Inr (nb_normal, nb_onehot_enc) \<Rightarrow>
            (case searcher self1 of
               None \<Rightarrow>
                 (Inl (Exn ''AttributeError'' ''NoneType object has no attribute mcts''),
                  self1, w)
             | Some s \<Rightarrow>
                (let env1 = (mcts_env s)\<lparr>problem_dependant_param :=
                                           Some problem_dependant_names\<rparr>;
                     w1 = record_call (EnvSetParam problem_dependant_names) w;
                     positive = (multinomial_nb_fit L X y = None);
                     env2 = env1\<lparr>problem_dependant_value :=
                                   Some \<lparr>no_encoding = nb_normal,
                                         one_hot_encoding = nb_onehot_enc,
                                         is_positive = positive\<rparr>\<rparr>;
                     w2 = record_call (EnvSetValue nb_normal nb_onehot_enc positive) w1
                 in (Inr (), self1\<lparr>searcher := Some (s\<lparr>mcts_env := env2\<rparr>)\<rparr>, w2))))"

subsection \<open>The search (lines 142--192)\<close>

text \<open>
  The class defines \<^verbatim>\<open>fit\<close> twice; the second definition (line 142) replaces the first,
  so it is the method. Line 159: the indices of the features labelled
  \<^verbatim>\<open>"categorical"\<close>; \<^verbatim>\<open>enumerate(None)\<close> raises TypeError.
\<close>

definition categorical_indices :: "string list \<Rightarrow> nat list" where
  "categorical_indices labels =
     map fst (filter (\<lambda>(i, x). x = ''categorical'') (List.enumerate 0 labels))"

definition not_iterable :: exn where
  "not_iterable = Exn ''TypeError'' ''NoneType object is not iterable''"

definition shape_message :: "nat list \<Rightarrow> nat list \<Rightarrow> string" where
  "shape_message sx sy = ''-> X shape: '' @ str_tuple sx @ ''; y shape: '' @ str_tuple sy"

text \<open>The cap that line 185 passes to \<^verbatim>\<open>searcher.run\<close>.\<close>

definition run_cap :: nat where
  "run_cap = 100000000000"

text \<open>
  Lines 149--181 of \<^verbatim>\<open>fit\<close>: everything before the \<^verbatim>\<open>try\<close> block. The arguments are
  \<^verbatim>\<open>X\<close>, \<^verbatim>\<open>y\<close>, \<^verbatim>\<open>X_test\<close>, \<^verbatim>\<open>y_test\<close> and \<^verbatim>\<open>categorical_features\<close>. On success the object holds
  the searcher on which the run is about to start.
\<close>

definition fit_setup ::
  "('d, 'cs, 'c, 'v) lib \<Rightarrow> ('d, 'cs, 'v) automl \<Rightarrow> 'd \<Rightarrow> 'd \<Rightarrow> 'd option \<Rightarrow> 'd option
     \<Rightarrow> string list option \<Rightarrow> 'c world
     \<Rightarrow> (exn + unit) \<times> ('d, 'cs, 'v) automl \<times> 'c world" where
  "fit_setup L self X0 y0 X_test0 y_test0 cf w =
     (let X = np_array L (Some X0);
          y = np_array L (Some y0);
          w1 = logger_info (shape_message (np_shape L X) (np_shape L y)) w;
          test_data =
            (case X_test0 of
               None \<Rightarrow> None
             | Some xt \<Rightarrow> Some (np_array L (Some xt), np_array L y_test0));
          w2 =
            (case test_data of
               None \<Rightarrow> w1
             | Some (xt, yt) \<Rightarrow>
                 logger_info (shape_message (np_shape L xt) (np_shape L yt)) w1)
      in case cf of
           None \<Rightarrow> (Inl not_iterable, self, w2)
         | Some labels \<Rightarrow>
            (let w3 = logger_info (''-> Categorical features: ''
                                    @ str_list (categorical_indices labels)) w2
             in case get_config_space L X w3 of
                  (Inl e, w4) \<Rightarrow> (Inl e, self, w4)
                | (Inr cs, w4) \<Rightarrow>
                   (let ef = \<lparr>ev_X = X, ev_y = y, ev_score_func = scoring_func self,
                              ev_categorical_features = labels,
                              ev_seed = seed self, ev_test_data = test_data\<rparr>;
                        environment =
                          \<lparr>eval_func = ef, config_space = cs,
                           mem_in_mb = memory_limit self,
                           cpu_time_in_s = time_limit_for_evaluation self,
                           env_seed = seed self,
                           problem_dependant_param = None,
                           problem_dependant_value = None,
                           bestconfig = new_bestconfig L\<rparr>;
                        w5 = record_call
                               (NewSklearnEnv (memory_limit self)
                                  (time_limit_for_evaluation self) (seed self)) w4;
                        s = \<lparr>mcts_env = environment,
                             sm_time_budget = time_budget self,
                             sm_seed = seed self,
                             sm_policy_arg = policy_arg self,
                             sm_exec_dir = mosaic_dir self,
                             sm_verbose = verbose self\<rparr>;
                        w6 = record_call
                               (NewSearchML (time_budget self) (seed self)
                                  (mosaic_dir self)) w5
                    in adapt_search_space L (self\<lparr>searcher := Some s\<rparr>) X y w6)))"

text \<open>
  Lines 183--189. The handler of the \<^verbatim>\<open>try\<close> block raises the exception it caught, so
  an exception of \<^verbatim>\<open>searcher.run\<close> leaves \<^verbatim>\<open>fit\<close>. Otherwise the two entries of the
  best-result slot are returned; a missing entry is a KeyError.
\<close>

definition best_entry :: "(string \<rightharpoonup> 'v) \<Rightarrow> string \<Rightarrow> exn + 'v" where
  "best_entry slot k = (case slot k of None \<Rightarrow> Inl (Exn ''KeyError'' k) | Some v \<Rightarrow> Inr v)"

definition run_search ::
  "('d, 'cs, 'c, 'v) lib \<Rightarrow> ('d, 'cs, 'v) automl \<Rightarrow> 'c list \<Rightarrow> 'c world
     \<Rightarrow> (exn + 'v \<times> 'v) \<times> ('d, 'cs, 'v) automl \<times> 'c world" where
  "run_search L self initial_configurations w =
     (case searcher self of
        None \<Rightarrow>
          (Inl (Exn ''AttributeError'' ''NoneType object has no attribute run''), self, w)
      | Some s \<Rightarrow>
         (case searcher_run L s (np_random w) run_cap initial_configurations of
            (raised, s', r', evaluated) \<Rightarrow>
              (let self' = self\<lparr>searcher := Some s'\<rparr>;
                   w' = w\<lparr>np_random := r',
                          calls := calls w @ SearcherRun run_cap initial_configurations
                                     # map Evaluate evaluated\<rparr>
               in case raised of
                    Some e \<Rightarrow> (Inl e, self', w')
                  | None \<Rightarrow>
                     (case best_entry (bestconfig (mcts_env s')) ''model'' of
                        Inl e \<Rightarrow> (Inl e, self', w')
                      | Inr m \<Rightarrow>
                         (case best_entry (bestconfig (mcts_env s')) ''validation_score'' of
                            Inl e \<Rightarrow> (Inl e, self', w')
                          | Inr v \<Rightarrow> (Inr (m, v), self', w'))))))"

text \<open>
  \<^verbatim>\<open>AutoML.fit\<close>. The last two arguments are \<^verbatim>\<open>nb_simulation\<close> (a number or
  \<^verbatim>\<open>np.inf\<close>, the default) and \<^verbatim>\<open>policy_arg\<close>; the body of the method reads neither.
\<close>

definition fit ::
  "('d, 'cs, 'c, 'v) lib \<Rightarrow> ('d, 'cs, 'v) automl \<Rightarrow> 'd \<Rightarrow> 'd \<Rightarrow> 'd option \<Rightarrow> 'd option
     \<Rightarrow> string list option \<Rightarrow> 'c list \<Rightarrow> enat \<Rightarrow> 'p \<Rightarrow> 'c world
     \<Rightarrow> (exn + 'v \<times> 'v) \<times> ('d, 'cs, 'v) automl \<times> 'c world" where
  "fit L self X0 y0 X_test0 y_test0 cf initial_configurations nb_simulation pol w =
     (case fit_setup L self X0 y0 X_test0 y_test0 cf w of
        (Inl e, self1, w1) \<Rightarrow> (Inl e, self1, w1)
      | (Inr u, self1, w1) \<Rightarrow> run_search L self1 initial_configurations w1)"

text \<open>\<^verbatim>\<open>AutoML.get_run_history\<close>.\<close>

definition get_run_history ::
  "('d, 'cs, 'c, 'v) lib \<Rightarrow> ('d, 'cs, 'v) automl \<Rightarrow> exn + ('c \<times> 'v \<times> nat) list" where
  "get_run_history L self =
     (case searcher self of
        None \<Rightarrow> Inl (Exn ''AttributeError'' ''NoneType object has no attribute get_history_run'')
      | Some s \<Rightarrow> Inr (get_history_run L s))"

subsection \<open>One run, and what can be observed of a call of fit\<close>


text \<open>
  The run that a call of \<^verbatim>\<open>fit\<close> starts, if it gets that far: the searcher on which
  \<^verbatim>\<open>run\<close> is called, and what the run gives.
\<close>

definition run_of_fit ::
  "('d, 'cs, 'c, 'v) lib \<Rightarrow> ('d, 'cs, 'v) automl \<Rightarrow> 'd \<Rightarrow> 'd \<Rightarrow> 'd option \<Rightarrow> 'd option
     \<Rightarrow> string list option \<Rightarrow> 'c list \<Rightarrow> 'c world
     \<Rightarrow> (('d, 'cs, 'v) search_ml
          \<times> exn option \<times> ('d, 'cs, 'v) search_ml \<times> rng \<times> 'c list) option" where
  "run_of_fit L self X0 y0 X_test0 y_test0 cf initial_configurations w =
     (case fit_setup L self X0 y0 X_test0 y_test0 cf w of
        (Inl e, self1, w1) \<Rightarrow> None
      | (Inr u, self1, w1) \<Rightarrow>
         (case searcher self1 of
            None \<Rightarrow> None
          | Some s \<Rightarrow>
              Some (s, searcher_run L s (np_random w1) run_cap initial_configurations)))"


text \<open>Calls that only log or read the configuration space.\<close>

fun reading_only :: "'c call list \<Rightarrow> bool" where
  "reading_only [] = True"
| "reading_only (LoggerInfo msg # ks) = reading_only ks"
| "reading_only (PcsRead p # ks) = reading_only ks"
| "reading_only (k # ks) = False"

text \<open>
  The calls of \<^verbatim>\<open>fit\<close> up to and including the reading of the dense configuration space:
  the shapes of the data, the shapes of the test split if there is one, the categorical
  indices, and lines 135--136.
\<close>

definition setup_reads ::
  "('d, 'cs, 'c, 'v) lib \<Rightarrow> 'd \<Rightarrow> 'd \<Rightarrow> 'd option \<Rightarrow> 'd option \<Rightarrow> string list
     \<Rightarrow> 'c call list" where
  "setup_reads L X0 y0 X_test0 y_test0 labels =
     LoggerInfo (shape_message (np_shape L (np_array L (Some X0)))
                   (np_shape L (np_array L (Some y0))))
     # (case X_test0 of
          None \<Rightarrow> []
        | Some xt \<Rightarrow>
            [LoggerInfo (shape_message (np_shape L (np_array L (Some xt)))
                           (np_shape L (np_array L y_test0)))])
     @ [LoggerInfo (''-> Categorical features: '' @ str_list (categorical_indices labels)),
        LoggerInfo ''Data is dense'',
        PcsRead (module_dir L @ ''/model_config/1_0.pcs'')]"

text \<open>Whether a raised exception, if any, is of the class named.\<close>

definition raises :: "string \<Rightarrow> exn + 'a \<Rightarrow> bool" where
  "raises cls r = (case r of Inl e \<Rightarrow> exn_class e = cls | Inr a \<Rightarrow> False)"

subsection \<open>A concrete world and concrete collaborators\<close>

text \<open>
  A data set is its sparsity flag and its shape, a configuration space is the path it
  was read from, configurations and scores are numbers. \<^verbatim>\<open>np.array\<close> of a sparse matrix
  is an array of shape \<^verbatim>\<open>()\<close> holding the matrix as an object, as is \<^verbatim>\<open>np.array(None)\<close>.
  The searcher of \<open>demo_lib\<close> evaluates seven configurations (fewer under a smaller cap)
  and leaves configuration 7 with score 93 in the best-result slot; the searcher of
  \<open>aborting_lib\<close> evaluates two configurations, fills the slot and then raises.
\<close>

definition demo_world :: "nat world" where
  "demo_world =
     \<lparr>dirs = [''/tmp'', ''/data/run''], files = [], np_random = Entropy 0,
      automl_handlers = [], calls = [], os_random = 0\<rparr>"

definition found_slot :: "string \<rightharpoonup> nat" where
  "found_slot = [''model'' \<mapsto> 7, ''validation_score'' \<mapsto> 93]"

definition demo_array :: "(bool \<times> nat list) option \<Rightarrow> bool \<times> nat list" where
  "demo_array a =
     (case a of
        None \<Rightarrow> (False, [])
      | Some (sparse, sh) \<Rightarrow> (False, if sparse then [] else sh))"

definition demo_onehot :: "bool \<times> nat list \<Rightarrow> exn + bool \<times> nat list" where
  "demo_onehot X =
     (case snd X of
        [rows, cols] \<Rightarrow> Inr (False, [rows, cols + 3])
      | _ \<Rightarrow> Inl (Exn ''ValueError'' ''Expected 2D array''))"

definition with_slot ::
  "(string \<rightharpoonup> 'v) \<Rightarrow> ('d, 'cs, 'v) search_ml \<Rightarrow> ('d, 'cs, 'v) search_ml" where
  "with_slot slot s = s\<lparr>mcts_env := (mcts_env s)\<lparr>bestconfig := slot\<rparr>\<rparr>"

definition demo_run ::
  "(bool \<times> nat list, string, nat) search_ml \<Rightarrow> rng \<Rightarrow> nat \<Rightarrow> nat list
     \<Rightarrow> exn option \<times> (bool \<times> nat list, string, nat) search_ml \<times> rng \<times> nat list" where
  "demo_run s r cap ic =
     (None, with_slot found_slot s,
      (case r of Entropy n \<Rightarrow> Entropy (n + 7) | Seeded k n \<Rightarrow> Seeded k (n + 7)),
      (if 7 \<le> cap then [1, 2, 3, 4, 5, 6, 7] else take cap [1, 2, 3, 4, 5, 6, 7]))"

definition aborting_run ::
  "(bool \<times> nat list, string, nat) search_ml \<Rightarrow> rng \<Rightarrow> nat \<Rightarrow> nat list
     \<Rightarrow> exn option \<times> (bool \<times> nat list, string, nat) search_ml \<times> rng \<times> nat list" where
  "aborting_run s r cap ic =
     (Some (Exn ''SearchAbortedError'' ''cancelled''), with_slot found_slot s, r, [1, 2])"

definition demo_lib :: "(bool \<times> nat list, string, nat, nat) lib" where
  "demo_lib =
     \<lparr>module_dir = ''/pkg/mosaic_ml'',
      np_array = demo_array,
      issparse = fst,
      np_shape = snd,
      pcs_read = Inr,
      onehot_fit_transform = demo_onehot,
      multinomial_nb_fit = (\<lambda>X y. None),
      new_bestconfig = Map.empty,
      searcher_run = demo_run,
      get_history_run = (\<lambda>s. [])\<rparr>"

definition aborting_lib :: "(bool \<times> nat list, string, nat, nat) lib" where
  "aborting_lib = demo_lib\<lparr>searcher_run := aborting_run\<rparr>"

text \<open>The object that examples/vanilla\_example.py constructs, in the directory \<^verbatim>\<open>/tmp/run\<close>.\<close>

definition demo_automl :: "(bool \<times> nat list, string, nat) automl" where
  "demo_automl =
     \<lparr>time_budget = 360, time_limit_for_evaluation = 100, memory_limit = 3024,
      policy_arg = \<lparr>policy_name = ''puct'', puct_c = 13 / 10\<rparr>,
      searcher = None, seed = 1, verbose = 1, exec_dir = ''/tmp/run'',
      mosaic_dir = ''/tmp/run/mosaic'', scoring_func = balanced_accuracy_score,
      problem_dependant_parameter = None\<rparr>"

definition demo_X :: "bool \<times> nat list" where
  "demo_X = (False, [150, 4])"

definition demo_y :: "bool \<times> nat list" where
  "demo_y = (False, [150])"

definition demo_labels :: "string list" where
  "demo_labels = [''numerical'', ''categorical'', ''numerical'', ''categorical'']"

text \<open>
  A searcher whose result depends on the state of the numpy generator when the run
  starts: it evaluates one configuration, drawn from the generator. \<open>used_world\<close> is
  \<open>demo_world\<close> after other code has seeded and used the generator and logged a line.
\<close>

definition random_run ::
  "(bool \<times> nat list, string, nat) search_ml \<Rightarrow> rng \<Rightarrow> nat \<Rightarrow> nat list
     \<Rightarrow> exn option \<times> (bool \<times> nat list, string, nat) search_ml \<times> rng \<times> nat list" where
  "random_run s r cap ic =
     (case r of
        Entropy n \<Rightarrow>
          (None, with_slot [''model'' \<mapsto> n, ''validation_score'' \<mapsto> 50] s,
           Entropy (Suc n), [n])
      | Seeded k n \<Rightarrow>
          (None, with_slot [''model'' \<mapsto> nat k + n, ''validation_score'' \<mapsto> 93] s,
           Seeded k (Suc n), [nat k + n]))"

definition random_lib :: "(bool \<times> nat list, string, nat, nat) lib" where
  "random_lib = demo_lib\<lparr>searcher_run := random_run\<rparr>"

definition used_world :: "nat world" where
  "used_world = demo_world\<lparr>np_random := Seeded 8 41, calls := [LoggerInfo ''earlier'']\<rparr>"







section \<open>Properties\<close>

subsection \<open>Auxiliary facts\<close>

lemmas world_ops = logger_info_def record_call_def

lemma longest_bound: "p \<in> set ps \<Longrightarrow> length p \<le> longest ps"
  unfolding longest_def by (induction ps) auto

lemma tmp_name_fresh: "tmp_name w \<notin> set (dirs w) \<and> tmp_name w \<notin> set (files w)"
proof -
  have "length (tmp_name w) > longest (dirs w @ files w)"
    by (simp add: tmp_name_def del: str_nat.simps)
  moreover have "p \<in> set (dirs w @ files w) \<Longrightarrow> length p \<le> longest (dirs w @ files w)" for p
    by (rule longest_bound)
  ultimately show ?thesis by fastforce
qed



lemma reading_only_setup_reads: "reading_only (setup_reads L X0 y0 Xt yt labels)"
  by (cases Xt) (simp_all add: setup_reads_def)


text \<open>What holds when the part of \<^verbatim>\<open>fit\<close> before the run has raised nothing.\<close>

lemma fit_setup_success:
  assumes "fit_setup L self X0 y0 Xt yt cf w = (Inr u, self1, w1)"
  shows "\<exists>labels n m s.
     cf = Some labels \<and>
     count_features L (np_array L (Some X0)) = Inr (n, m) \<and>
     searcher self1 = Some s \<and>
     mem_in_mb (mcts_env s) = memory_limit self \<and>
     cpu_time_in_s (mcts_env s) = time_limit_for_evaluation self \<and>
     env_seed (mcts_env s) = seed self \<and>
     ev_seed (eval_func (mcts_env s)) = seed self \<and>
     sm_seed s = seed self \<and>
     problem_dependant_param (mcts_env s) = Some problem_dependant_names \<and>
     problem_dependant_value (mcts_env s) =
       Some \<lparr>no_encoding = n, one_hot_encoding = m,
             is_positive = (multinomial_nb_fit L (np_array L (Some X0))
                              (np_array L (Some y0)) = None)\<rparr> \<and>
     np_random w1 = np_random w \<and>
     calls w1 = calls w @ setup_reads L X0 y0 Xt yt labels @
        [NewSklearnEnv (memory_limit self) (time_limit_for_evaluation self) (seed self),
         NewSearchML (time_budget self) (seed self) (mosaic_dir self),
         EnvSetParam problem_dependant_names,
         EnvSetValue n m (multinomial_nb_fit L (np_array L (Some X0))
                            (np_array L (Some y0)) = None)]"
  using assms
  by (cases Xt)
     (auto simp: fit_setup_def Let_def get_config_space_def adapt_search_space_def world_ops
        setup_reads_def
        split: sum.splits option.splits prod.splits if_splits)

lemmas demo_defs = demo_lib_def aborting_lib_def demo_automl_def demo_X_def demo_y_def
  demo_world_def demo_labels_def demo_array_def demo_onehot_def demo_run_def aborting_run_def
  with_slot_def found_slot_def

lemmas fit_defs = fit_def fit_setup_def run_search_def run_of_fit_def get_config_space_def
  adapt_search_space_def count_features_def shape_1_def best_entry_def world_ops run_cap_def

lemmas init_defs = init_def np_random_seed_def make_exec_dir_def mkdtemp_def os_makedirs_def
  add_handlers_def add_file_handler_def add_stream_handler_def set_scoring_func_def

text \<open>A call of \<^verbatim>\<open>fit\<close> in terms of the run it starts.\<close>

lemma fit_of_run:
  assumes "run_of_fit L self X0 y0 Xt yt cf ic w = Some (s, raised, s', r', evs)"
  shows "\<exists>self1 w1.
     fit_setup L self X0 y0 Xt yt cf w = (Inr (), self1, w1) \<and> searcher self1 = Some s \<and>
     searcher_run L s (np_random w1) run_cap ic = (raised, s', r', evs) \<and>
     fit L self X0 y0 Xt yt cf ic nb pol w =
       ((case raised of
           Some e \<Rightarrow> Inl e
         | None \<Rightarrow>
            (case best_entry (bestconfig (mcts_env s')) ''model'' of
               Inl e \<Rightarrow> Inl e
             | Inr m \<Rightarrow>
                (case best_entry (bestconfig (mcts_env s')) ''validation_score'' of
                   Inl e \<Rightarrow> Inl e
                 | Inr v \<Rightarrow> Inr (m, v)))),
        self1\<lparr>searcher := Some s'\<rparr>,
        w1\<lparr>np_random := r',
            calls := calls w1 @ SearcherRun run_cap ic # map Evaluate evs\<rparr>)"
  using assms
  by (auto simp: run_of_fit_def fit_def run_search_def Let_def
      split: prod.splits sum.splits option.splits)




lemma tmp_name_np_random: "tmp_name (w\<lparr>np_random := r\<rparr>) = tmp_name w"
  by (simp add: tmp_name_def del: str_nat.simps)

lemma os_path_join_inside: "take (length d) (os_path_join d ''automl.log'') = d"
  by (simp add: os_path_join_def)




subsection \<open>The configuration space\<close>

text \<open>
  C2. On a sparse matrix \<^verbatim>\<open>get_config_space\<close> logs that the data is sparse and raises
  AttributeError (the attribute \<^verbatim>\<open>path4\<close> of the module \<^verbatim>\<open>os\<close>) without reading
  \<^verbatim>\<open>model_config/1_1.pcs\<close> or any other file; on any other input it logs that the data
  is dense and gives whatever reading \<^verbatim>\<open>model_config/1_0.pcs\<close> gives.
\<close>

theorem get_config_space_branches:
  "get_config_space L X w =
     (if issparse L X then
        (Inl (Exn ''AttributeError'' ''module os has no attribute path4''),
         w\<lparr>calls := calls w @ [LoggerInfo ''Data is sparse'']\<rparr>)
      else
        (pcs_read L (module_dir L @ ''/model_config/1_0.pcs''),
         w\<lparr>calls := calls w @ [LoggerInfo ''Data is dense'',
                                 PcsRead (module_dir L @ ''/model_config/1_0.pcs'')]\<rparr>))"
  by (simp add: get_config_space_def world_ops Let_def)

subsection \<open>Categorical features left out\<close>

text \<open>
  C9. A call of \<^verbatim>\<open>fit\<close> with \<^verbatim>\<open>categorical_features\<close> left None raises TypeError, leaves
  the object as it was (its searcher included) and adds to the calls only the one or
  two log lines with the shapes: the configuration space is not read, no environment
  and no searcher is constructed, and no run and no evaluation starts.
\<close>

theorem fit_without_categorical_features:
  "fit L self X0 y0 X_test0 y_test0 None ic nb pol w =
     (Inl (Exn ''TypeError'' ''NoneType object is not iterable''), self,
      w\<lparr>calls := calls w
         @ LoggerInfo (shape_message (np_shape L (np_array L (Some X0)))
                         (np_shape L (np_array L (Some y0))))
         # (case X_test0 of
              None \<Rightarrow> []
            | Some xt \<Rightarrow>
                [LoggerInfo (shape_message (np_shape L (np_array L (Some xt)))
                               (np_shape L (np_array L y_test0)))])\<rparr>)"
  by (cases X_test0)
     (simp_all add: fit_def fit_setup_def not_iterable_def world_ops)

subsection \<open>The result of a search that completes\<close>

text \<open>
  C1. When the part of \<^verbatim>\<open>fit\<close> before the run raises nothing and \<^verbatim>\<open>searcher.run\<close>
  returns, \<^verbatim>\<open>fit\<close> returns the pair of the entries \<^verbatim>\<open>"model"\<close> and
  \<^verbatim>\<open>"validation_score"\<close> of the best-result slot of the searcher as the run left it
  (both entries being in the slot), and that searcher is the one the object keeps.
\<close>

theorem fit_returns_best_slot:
  assumes "run_of_fit L self X0 y0 Xt yt cf ic w = Some (s, None, s', r', evs)"
      and "bestconfig (mcts_env s') ''model'' = Some m"
      and "bestconfig (mcts_env s') ''validation_score'' = Some v"
  shows "fst (fit L self X0 y0 Xt yt cf ic nb pol w) = Inr (m, v) \<and>
         searcher (fst (snd (fit L self X0 y0 Xt yt cf ic nb pol w))) = Some s'"
  using fit_of_run[OF assms(1), of nb pol] assms(2,3)
  by (auto simp: best_entry_def)

theorem fit_returns_best_slot_witness:
  "fst (fit demo_lib demo_automl demo_X demo_y None None (Some demo_labels) [] \<infinity> () demo_world)
     = Inr (7, 93)"
proof -
  obtain s s' r' evs where
    run: "run_of_fit demo_lib demo_automl demo_X demo_y None None (Some demo_labels) [] demo_world
            = Some (s, None, s', r', evs)"
    and slot: "bestconfig (mcts_env s') = found_slot"
    by (simp add: fit_defs demo_defs Let_def)
  have m: "bestconfig (mcts_env s') ''model'' = Some 7"
    and v: "bestconfig (mcts_env s') ''validation_score'' = Some 93"
    by (simp_all add: slot found_slot_def)
  from fit_returns_best_slot[OF run m v] show ?thesis by (rule conjunct1)
qed

subsection \<open>The simulation cap\<close>

text \<open>
  C5. A call of \<^verbatim>\<open>fit\<close> with \<^verbatim>\<open>nb_simulation = 5\<close>, on collaborators whose searcher
  evaluates seven configurations unless its cap is smaller: \<^verbatim>\<open>searcher.run\<close> is called
  with the cap 100000000000 of line 185, and seven configurations are evaluated.
\<close>

theorem fit_cap_at_five:
  "calls (snd (snd (fit demo_lib demo_automl demo_X demo_y None None (Some demo_labels) []
                      (enat 5) () demo_world))) =
     [LoggerInfo ''-> X shape: (150, 4); y shape: (150,)'',
      LoggerInfo ''-> Categorical features: [1, 3]'',
      LoggerInfo ''Data is dense'',
      PcsRead ''/pkg/mosaic_ml/model_config/1_0.pcs'',
      NewSklearnEnv 3024 100 1,
      NewSearchML 360 1 ''/tmp/run/mosaic'',
      EnvSetParam problem_dependant_names,
      EnvSetValue 4 7 True,
      SearcherRun 100000000000 [],
      Evaluate 1, Evaluate 2, Evaluate 3, Evaluate 4, Evaluate 5, Evaluate 6, Evaluate 7]"
  by (simp add: fit_defs demo_defs Let_def shape_message_def str_tuple_def str_list_def
       categorical_indices_def enumerate_eq_zip)

text \<open>No call of \<^verbatim>\<open>fit\<close> depends on \<^verbatim>\<open>nb_simulation\<close> or on \<^verbatim>\<open>policy_arg\<close>.\<close>

lemma fit_ignores_nb_simulation:
  "fit L self X0 y0 Xt yt cf ic nb pol w = fit L self X0 y0 Xt yt cf ic nb' pol' w"
  by (simp add: fit_def)

subsection \<open>A search that raises\<close>

text \<open>
  C6, as the claim states it, fails: the searcher of \<open>aborting_lib\<close> has filled the
  best-result slot when it raises SearchAbortedError, and \<^verbatim>\<open>fit\<close> ends with that
  exception although the slot holds configuration 7.
\<close>

theorem fit_aborted_counterexample:
  "fst (fit aborting_lib demo_automl demo_X demo_y None None (Some demo_labels) [] \<infinity> () demo_world)
     = Inl (Exn ''SearchAbortedError'' ''cancelled'') \<and>
   map_option (\<lambda>s. bestconfig (mcts_env s) ''model'')
     (searcher (fst (snd (fit aborting_lib demo_automl demo_X demo_y None None
                            (Some demo_labels) [] \<infinity> () demo_world)))) = Some (Some 7)"
  by (simp add: fit_defs demo_defs Let_def)

text \<open>
  C6, amended. When \<^verbatim>\<open>searcher.run\<close> raises an exception, \<^verbatim>\<open>fit\<close> raises the same
  exception to its caller (line 187), whatever the best-result slot holds.
\<close>

theorem fit_reraises:
  assumes "run_of_fit L self X0 y0 Xt yt cf ic w = Some (s, Some e, s', r', evs)"
  shows "fst (fit L self X0 y0 Xt yt cf ic nb pol w) = Inl e"
  using fit_of_run[OF assms, of nb pol] by auto

theorem fit_reraises_witness:
  "fst (fit aborting_lib demo_automl demo_X demo_y None None (Some demo_labels) [] \<infinity> () demo_world)
     = Inl (Exn ''SearchAbortedError'' ''cancelled'')"
proof -
  obtain s s' r' evs where
    "run_of_fit aborting_lib demo_automl demo_X demo_y None None (Some demo_labels) [] demo_world
       = Some (s, Some (Exn ''SearchAbortedError'' ''cancelled''), s', r', evs)"
    by (simp add: fit_defs demo_defs Let_def)
  then show ?thesis by (rule fit_reraises)
qed

subsection \<open>The limits of an evaluation\<close>



subsection \<open>The adaptation of the search space\<close>

text \<open>
  C7. In a call of \<^verbatim>\<open>fit\<close> that gets as far as the run, the calls made are: calls that
  only log or read the configuration space, the construction of the environment, the
  construction of the searcher, the two writes of \<^verbatim>\<open>adapt_search_space\<close> (the names of
  the problem-dependent parameters; the number of columns without encoding and with
  one-hot encoding, and whether \<^verbatim>\<open>MultinomialNB\<close> accepted the data), the start of the
  run, and the evaluations of the run. So the adaptation happens once, after the
  searcher is constructed and before the run, and never between evaluations; the
  searcher on which the run starts carries what it wrote.
\<close>

theorem adaptation_once_before_run:
  assumes "run_of_fit L self X0 y0 Xt yt cf ic w = Some (s, raised, s', r', evs)"
  shows "\<exists>pre n m.
     reading_only pre \<and>
     count_features L (np_array L (Some X0)) = Inr (n, m) \<and>
     problem_dependant_param (mcts_env s) = Some problem_dependant_names \<and>
     problem_dependant_value (mcts_env s) =
       Some \<lparr>no_encoding = n, one_hot_encoding = m,
             is_positive = (multinomial_nb_fit L (np_array L (Some X0))
                              (np_array L (Some y0)) = None)\<rparr> \<and>
     calls (snd (snd (fit L self X0 y0 Xt yt cf ic nb pol w))) =
       calls w @ pre @
       [NewSklearnEnv (memory_limit self) (time_limit_for_evaluation self) (seed self),
        NewSearchML (time_budget self) (seed self) (mosaic_dir self),
        EnvSetParam problem_dependant_names,
        EnvSetValue n m (multinomial_nb_fit L (np_array L (Some X0))
                           (np_array L (Some y0)) = None),
        SearcherRun run_cap ic] @ map Evaluate evs"
proof -
  from fit_of_run[OF assms, of nb pol] obtain self1 w1 where
    prep: "fit_setup L self X0 y0 Xt yt cf w = (Inr (), self1, w1)"
    and s: "searcher self1 = Some s"
    and calls: "calls (snd (snd (fit L self X0 y0 Xt yt cf ic nb pol w))) =
                  calls w1 @ SearcherRun run_cap ic # map Evaluate evs"
    by auto
  from fit_setup_success[OF prep] s obtain labels n m where
    "count_features L (np_array L (Some X0)) = Inr (n, m)"
    "problem_dependant_param (mcts_env s) = Some problem_dependant_names"
    "problem_dependant_value (mcts_env s) =
       Some \<lparr>no_encoding = n, one_hot_encoding = m,
             is_positive = (multinomial_nb_fit L (np_array L (Some X0))
                              (np_array L (Some y0)) = None)\<rparr>"
    "calls w1 = calls w @ setup_reads L X0 y0 Xt yt labels @
        [NewSklearnEnv (memory_limit self) (time_limit_for_evaluation self) (seed self),
         NewSearchML (time_budget self) (seed self) (mosaic_dir self),
         EnvSetParam problem_dependant_names,
         EnvSetValue n m (multinomial_nb_fit L (np_array L (Some X0))
                            (np_array L (Some y0)) = None)]"
    by auto
  with calls reading_only_setup_reads[of L X0 y0 Xt yt labels] show ?thesis
    by (intro exI[of _ "setup_reads L X0 y0 Xt yt labels"] exI[of _ n] exI[of _ m]) simp
qed

theorem adaptation_once_before_run_witness:
  "\<exists>pre. reading_only pre \<and>
     calls (snd (snd (fit demo_lib demo_automl demo_X demo_y None None (Some demo_labels) []
                        \<infinity> () demo_world))) =
       calls demo_world @ pre @
       [NewSklearnEnv 3024 100 1, NewSearchML 360 1 ''/tmp/run/mosaic'',
        EnvSetParam problem_dependant_names, EnvSetValue 4 7 True,
        SearcherRun run_cap []] @ map Evaluate [1, 2, 3, 4, 5, 6, 7]"
proof -
  obtain s s' r' where
    run: "run_of_fit demo_lib demo_automl demo_X demo_y None None (Some demo_labels) [] demo_world
            = Some (s, None, s', r', [1, 2, 3, 4, 5, 6, 7])"
    by (simp add: fit_defs demo_defs Let_def)
  have counted: "count_features demo_lib (np_array demo_lib (Some demo_X)) = Inr (4, 7)"
    by (simp add: count_features_def shape_1_def demo_defs)
  have positive: "multinomial_nb_fit demo_lib (np_array demo_lib (Some demo_X))
                    (np_array demo_lib (Some demo_y)) = None"
    by (simp add: demo_defs)
  from adaptation_once_before_run[OF run, of \<infinity> "()"] counted positive
  show ?thesis
    by (auto simp: demo_automl_def)
qed

subsection \<open>The scoring function\<close>

text \<open>
  C3, as the claim states it, fails. An unknown name raises the built-in class
  \<^verbatim>\<open>Exception\<close> with the message of line 82, not a class UnknownScoringFunctionError
  (the code defines none); and with the legal name \<^verbatim>\<open>accuracy\<close> the construction
  fails when the execution directory exists, since the directory is created before the
  name is looked at.
\<close>

theorem unknown_scoring_func_counterexample:
  "\<not> raises ''UnknownScoringFunctionError''
       (fst (init 3600 300 3024 ''f1'' 1 None 0 demo_world
               :: (exn + (bool \<times> nat list, string, nat) automl) \<times> nat world)) \<and>
   fst (init 3600 300 3024 ''f1'' 1 None 0 demo_world
          :: (exn + (bool \<times> nat list, string, nat) automl) \<times> nat world) =
     Inl (Exn ''Exception'' ''Score func f1 unknown'') \<and>
   fst (init 3600 300 3024 ''accuracy'' 1 (Some ''/data/run'') 0 demo_world
          :: (exn + (bool \<times> nat list, string, nat) automl) \<times> nat world) =
     Inl (Exn ''FileExistsError'' ''[Errno 17] File exists: /data/run'')"
  by (simp add: init_defs raises_def demo_world_def Let_def)

text \<open>
  C3, amended. When the seed is valid and the execution directory is omitted or is a
  non-empty path that does not exist yet, constructing with a name outside accuracy,
  balanced\_accuracy, roc\_auc raises \<^verbatim>\<open>Exception("Score func <name> unknown")\<close>; with
  one of the three names construction succeeds, the object holds \<^verbatim>\<open>accuracy_score\<close>,
  \<^verbatim>\<open>balanced_accuracy_score\<close> or \<^verbatim>\<open>roc_auc_score\<close> respectively, and its searcher is
  None. In both cases the constructor calls no collaborator: no environment and no
  searcher has been created.
\<close>

theorem scoring_func_at_construction:
  assumes "0 \<le> sd" and "sd < 2 ^ 32"
      and "case dir_arg of
             None \<Rightarrow> True
           | Some d \<Rightarrow> d \<noteq> [] \<and> d \<notin> set (dirs w) \<and> d \<notin> set (files w)"
  shows "(name \<notin> {''accuracy'', ''balanced_accuracy'', ''roc_auc''} \<longrightarrow>
            fst (init budget limit mem name sd dir_arg vb w) =
              Inl (Exn ''Exception'' (''Score func '' @ name @ '' unknown''))) \<and>
         (name = ''accuracy'' \<longrightarrow>
            (\<exists>a. fst (init budget limit mem name sd dir_arg vb w) = Inr a \<and>
                 scoring_func a = accuracy_score \<and> searcher a = None)) \<and>
         (name = ''balanced_accuracy'' \<longrightarrow>
            (\<exists>a. fst (init budget limit mem name sd dir_arg vb w) = Inr a \<and>
                 scoring_func a = balanced_accuracy_score \<and> searcher a = None)) \<and>
         (name = ''roc_auc'' \<longrightarrow>
            (\<exists>a. fst (init budget limit mem name sd dir_arg vb w) = Inr a \<and>
                 scoring_func a = roc_auc_score \<and> searcher a = None)) \<and>
         calls (snd (init budget limit mem name sd dir_arg vb w)) = calls w"
  using assms
  by (cases dir_arg) (auto simp: init_defs Let_def)

theorem scoring_func_at_construction_witness:
  "fst (init 3600 300 3024 ''f1'' 1 None 0 demo_world
          :: (exn + (bool \<times> nat list, string, nat) automl) \<times> nat world) =
     Inl (Exn ''Exception'' ''Score func f1 unknown'') \<and>
   (\<exists>a. fst (init 3600 300 3024 ''roc_auc'' 1 (Some ''/tmp/run'') 0 demo_world
              :: (exn + (bool \<times> nat list, string, nat) automl) \<times> nat world) = Inr a \<and>
        scoring_func a = roc_auc_score \<and> searcher a = None)"
proof -
  have sd: "(0::int) \<le> 1" "(1::int) < 2 ^ 32"
    by simp_all
  have tmp: "case None of
               None \<Rightarrow> True
             | Some d \<Rightarrow> d \<noteq> [] \<and> d \<notin> set (dirs demo_world) \<and> d \<notin> set (files demo_world)"
    by simp
  have run: "case Some ''/tmp/run'' of
               None \<Rightarrow> True
             | Some d \<Rightarrow> d \<noteq> [] \<and> d \<notin> set (dirs demo_world) \<and> d \<notin> set (files demo_world)"
    by (simp add: demo_world_def)
  have unknown:
    "fst (init 3600 300 3024 ''f1'' 1 None 0 demo_world
            :: (exn + (bool \<times> nat list, string, nat) automl) \<times> nat world) =
       Inl (Exn ''Exception'' (''Score func '' @ ''f1'' @ '' unknown''))"
    by (rule scoring_func_at_construction[OF sd tmp, where name = "''f1''",
               THEN conjunct1, rule_format]) simp
  have known:
    "\<exists>a. fst (init 3600 300 3024 ''roc_auc'' 1 (Some ''/tmp/run'') 0 demo_world
               :: (exn + (bool \<times> nat list, string, nat) automl) \<times> nat world) = Inr a \<and>
         scoring_func a = roc_auc_score \<and> searcher a = None"
    by (rule scoring_func_at_construction[OF sd run, where name = "''roc_auc''",
               THEN conjunct2, THEN conjunct2, THEN conjunct2, THEN conjunct1, rule_format])
       simp
  from unknown known show ?thesis
    by simp
qed

subsection \<open>The execution directory\<close>

text \<open>
  C10. With a valid seed: construction with an explicit \<^verbatim>\<open>exec_dir\<close> that exists raises
  the FileExistsError of \<^verbatim>\<open>os.makedirs\<close>; when it succeeds, the directory did not
  exist before, exists afterwards, is the \<^verbatim>\<open>exec_dir\<close> of the object, and the file
  \<^verbatim>\<open>os.path.join(exec_dir, "automl.log")\<close>, whose path starts with the directory, exists
  and has a handler on the logger. With \<^verbatim>\<open>exec_dir\<close> omitted construction never raises
  FileExistsError: it succeeds in a directory that did not exist before, with the log
  file in it, or fails on the name of the scoring function only.
\<close>

theorem exec_dir_at_construction:
  assumes "0 \<le> sd" and "sd < 2 ^ 32"
  shows "(d \<noteq> [] \<and> d \<in> set (dirs w) \<longrightarrow>
            init budget limit mem name sd (Some d) vb w =
              (Inl (Exn ''FileExistsError'' (''[Errno 17] File exists: '' @ d)),
               w\<lparr>np_random := Seeded sd 0\<rparr>)) \<and>
         (\<forall>a w'. init budget limit mem name sd (Some d) vb w = (Inr a, w') \<longrightarrow>
            d \<notin> set (dirs w) \<and> d \<in> set (dirs w') \<and> exec_dir a = d \<and>
            take (length d) (os_path_join d ''automl.log'') = d \<and>
            os_path_join d ''automl.log'' \<in> set (files w') \<and>
            FileHandler (os_path_join d ''automl.log'') \<in> set (automl_handlers w')) \<and>
         \<not> raises ''FileExistsError'' (fst (init budget limit mem name sd None vb w)) \<and>
         (\<forall>a w'. init budget limit mem name sd None vb w = (Inr a, w') \<longrightarrow>
            exec_dir a \<notin> set (dirs w) \<and> exec_dir a \<notin> set (files w) \<and>
            exec_dir a \<in> set (dirs w') \<and>
            os_path_join (exec_dir a) ''automl.log'' \<in> set (files w')) \<and>
         ((\<exists>a w'. init budget limit mem name sd None vb w = (Inr a, w')) \<or>
          fst (init budget limit mem name sd None vb w) =
             Inl (Exn ''Exception'' (''Score func '' @ name @ '' unknown'')))"
proof -
  have exists: "d \<noteq> [] \<and> d \<in> set (dirs w) \<Longrightarrow>
            init budget limit mem name sd (Some d) vb w =
              (Inl (Exn ''FileExistsError'' (''[Errno 17] File exists: '' @ d)),
               w\<lparr>np_random := Seeded sd 0\<rparr>)"
    using assms by (auto simp: init_defs Let_def)
  have given: "d \<notin> set (dirs w) \<and> d \<in> set (dirs w') \<and> exec_dir a = d \<and>
            take (length d) (os_path_join d ''automl.log'') = d \<and>
            os_path_join d ''automl.log'' \<in> set (files w') \<and>
            FileHandler (os_path_join d ''automl.log'') \<in> set (automl_handlers w')"
    if "init budget limit mem name sd (Some d) vb w = (Inr a, w')" for a w'
    using that assms
    by (auto simp: init_defs Let_def os_path_join_inside split: if_splits)
  have no_clash: "\<not> raises ''FileExistsError'' (fst (init budget limit mem name sd None vb w))"
    using assms by (auto simp: init_defs Let_def raises_def)
  have omitted: "exec_dir a \<notin> set (dirs w) \<and> exec_dir a \<notin> set (files w) \<and>
            exec_dir a \<in> set (dirs w') \<and>
            os_path_join (exec_dir a) ''automl.log'' \<in> set (files w')"
    if "init budget limit mem name sd None vb w = (Inr a, w')" for a w'
    using that assms tmp_name_fresh[of w]
    by (auto simp: init_defs Let_def tmp_name_np_random split: if_splits)
  have only_score: "(\<exists>a w'. init budget limit mem name sd None vb w = (Inr a, w')) \<or>
          fst (init budget limit mem name sd None vb w) =
             Inl (Exn ''Exception'' (''Score func '' @ name @ '' unknown''))"
    using assms by (auto simp: init_defs Let_def)
  from exists given no_clash omitted only_score show ?thesis
    by blast
qed

theorem exec_dir_at_construction_witness:
  "raises ''FileExistsError''
     (fst (init 360 100 3024 ''roc_auc'' 1 (Some ''/data/run'') 0 demo_world
             :: (exn + (bool \<times> nat list, string, nat) automl) \<times> nat world)) \<and>
   ''/tmp/run/automl.log'' \<in> set (files (snd
     (init 360 100 3024 ''roc_auc'' 1 (Some ''/tmp/run'') 0 demo_world
        :: (exn + (bool \<times> nat list, string, nat) automl) \<times> nat world)))"
proof -
  have sd: "(0::int) \<le> 1" "(1::int) < 2 ^ 32"
    by simp_all
  obtain a :: "(bool \<times> nat list, string, nat) automl" and w' :: "nat world" where
    made: "init 360 100 3024 ''roc_auc'' 1 (Some ''/tmp/run'') 0 demo_world = (Inr a, w')"
    by (simp add: init_defs demo_world_def Let_def)
  have "(init 360 100 3024 ''roc_auc'' 1 (Some ''/data/run'') 0 demo_world
           :: (exn + (bool \<times> nat list, string, nat) automl) \<times> nat world) =
          (Inl (Exn ''FileExistsError'' (''[Errno 17] File exists: '' @ ''/data/run'')),
           demo_world\<lparr>np_random := Seeded 1 0\<rparr>)"
    by (rule exec_dir_at_construction[OF sd, THEN conjunct1, rule_format])
       (simp add: demo_world_def)
  then have clash: "raises ''FileExistsError''
     (fst (init 360 100 3024 ''roc_auc'' 1 (Some ''/data/run'') 0 demo_world
             :: (exn + (bool \<times> nat list, string, nat) automl) \<times> nat world))"
    by (simp add: raises_def)
  have "os_path_join ''/tmp/run'' ''automl.log'' \<in> set (files w')"
    using exec_dir_at_construction[OF sd, THEN conjunct2, THEN conjunct1, rule_format, OF made]
    by simp
  with made clash show ?thesis
    by (simp add: os_path_join_def)
qed

subsection \<open>Reproducibility\<close>




text \<open>
  Without the constructor in between, the outcome of \<^verbatim>\<open>fit\<close> does depend on the state
  of the generator.
\<close>

lemma fit_depends_on_generator:
  "fst (fit random_lib demo_automl demo_X demo_y None None (Some demo_labels) [] \<infinity> () demo_world)
     = Inr (0, 50) \<and>
   fst (fit random_lib demo_automl demo_X demo_y None None (Some demo_labels) [] \<infinity> () used_world)
     = Inr (49, 93)"
  by (simp add: fit_defs demo_defs used_world_def random_lib_def random_run_def Let_def)

end
